theory Spec2Isabelle
  imports Main
begin

section \<open>Data model of the space security middleware\<close>

text \<open>
  Identifiers (\<open>Ref<Account>\<close>, \<open>Ref<Space>\<close>, \<open>Ref<Class<..>>\<close>) are strings in the
  source. An account id is also used as a space id (the caller's pseudo-space), so one
  type serves for all of them.
\<close>

type_synonym ref = string

text \<open>
  The identifiers of the core plugin the middleware compares against. Their spelling is
  fixed by the core package; the middleware only relies on their being different.
\<close>

definition core_account_System :: ref where
  "core_account_System = ''core:account:System''"

definition core_class_Space :: ref where
  "core_class_Space = ''core:class:Space''"

definition core_class_TxCUD :: ref where
  "core_class_TxCUD = ''core:class:TxCUD''"

definition core_class_TxCreateDoc :: ref where
  "core_class_TxCreateDoc = ''core:class:TxCreateDoc''"

definition core_class_TxUpdateDoc :: ref where
  "core_class_TxUpdateDoc = ''core:class:TxUpdateDoc''"

definition core_class_TxRemoveDoc :: ref where
  "core_class_TxRemoveDoc = ''core:class:TxRemoveDoc''"

definition systemSpaces :: "ref list" where
  "systemSpaces =
     [''core:space:Configuration'', ''core:space:DerivedTx'', ''core:space:Model'',
      ''core:space:Space'', ''core:space:Tx'']"

text \<open>A \<open>Space\<close> document: the fields the middleware reads.\<close>

record Space =
  sp_id :: ref
  sp_private :: bool
  members :: "ref list"

text \<open>
  The access index, the three mutable fields of \<open>SpaceSecurityMiddleware\<close>.
  \<open>allowedSpaces\<close> holds arrays: order and repetitions are kept, as \<open>push\<close> and
  \<open>splice\<close> leave them. \<open>privateSpaces\<close> is a \<open>Record<Ref<Space>, Space | undefined>\<close>:
  a key that was never written is \<open>None\<close>, a key that \<open>removeSpace\<close> has set to
  \<open>undefined\<close> is \<open>Some None\<close>.
\<close>

record state =
  allowedSpaces :: "ref \<rightharpoonup> ref list"
  privateSpaces :: "ref \<rightharpoonup> Space option"
  publicSpaces :: "ref list"

text \<open>\<open>this.privateSpaces[id]\<close>: \<open>undefined\<close> for a missing key and for a cleared one.\<close>

definition getPrivate :: "state \<Rightarrow> ref \<Rightarrow> Space option" where
  "getPrivate st i = (case privateSpaces st i of None \<Rightarrow> None | Some v \<Rightarrow> v)"

text \<open>Errors raised to the caller: the middleware's own \<open>Forbidden\<close>, and whatever a
  collaborator (account resolution, the next stage) rejects with.\<close>

datatype error = Forbidden | Failure string

text \<open>\<open>$push\<close> on members: one account, or a \<open>Position\<close> object with \<open>$each\<close>.
  \<open>$pull\<close> on members: one account, or a \<open>PullArray\<close> object with an optional \<open>$in\<close>.\<close>

datatype push_arg = PushOne ref | PushEach "ref list"

datatype pull_arg = PullOne ref | PullIn "ref list option"

text \<open>\<open>TxUpdateDoc.operations\<close>, the parts \<open>handleUpdate\<close> reads; \<open>None\<close> is
  \<open>undefined\<close>.\<close>

record DocumentUpdate =
  op_private :: "bool option"
  op_members :: "ref list option"
  op_push_members :: "push_arg option"
  op_pull_members :: "pull_arg option"

text \<open>\<open>TxCreateDoc.attributes\<close>, the part \<open>handleCreate\<close> reads.\<close>

record Data =
  attr_private :: bool
  attr_members :: "ref list"

text \<open>
  A transaction as the middleware sees it. \<open>attributes\<close> is read only when the class
  is \<open>TxCreateDoc\<close>, \<open>operations\<close> only when it is \<open>TxUpdateDoc\<close>.
\<close>

record Tx =
  tx_class :: ref
  objectClass :: ref
  objectId :: ref
  objectSpace :: ref
  attributes :: Data
  operations :: DocumentUpdate

type_synonym ctx = string

text \<open>
  Queries. The \<open>space\<close> criterion of a \<open>DocumentQuery\<close> is a literal id or a selector
  object; of a selector the middleware reads and writes \<open>$in\<close> and carries every other
  operator along (\<open>sel_rest\<close>). The other criteria of the query are \<open>q_rest\<close>.
\<close>

datatype space_query = Literal ref | Selector (sel_in: "ref list option") (sel_rest: "(string \<times> ref list) list")

record DocumentQuery =
  q_space :: "space_query option"
  q_rest :: "(string \<times> string) list"

text \<open>\<open>FindOptions\<close>: only whether \<open>lookup\<close> is defined is read.\<close>

record FindOptions =
  opt_lookup :: "string list option"

text \<open>
  Results. A joined object of \<open>$lookup\<close> is read for its \<open>space\<close> only. A lookup entry
  is an array of joined objects or a single one; \<open>LOne None\<close> is a key holding
  \<open>undefined\<close>. \<open>LookupData\<close> is the object's keys with their entries, in key order.
\<close>

record AttachedDoc =
  sub_id :: ref
  sub_space :: ref

datatype lookup_val = LArr "AttachedDoc list" | LOne "AttachedDoc option"

type_synonym LookupData = "(string \<times> lookup_val) list"

record Doc =
  doc_id :: ref
  doc_space :: ref
  doc_lookup :: "LookupData option"

text \<open>
  The collaborators, which the middleware calls and does not define:
  the class hierarchy (\<open>isDerived\<close>), account resolution (\<open>getUser\<close>, which may reject),
  the storage query for one space by id (\<open>findSpace\<close>, the first result or none),
  \<open>TxProcessor.buildDoc2Doc\<close> and \<open>TxProcessor.updateDoc2Doc\<close>, the account
  directory (\<open>emails\<close>) and the next stage's \<open>findAll\<close> (\<open>provideFindAll\<close>, which may
  reject). The object \<open>updateDoc2Doc\<close> returns is bound to a local variable that is
  dropped, so the index sees only what the call does to the stored record in place:
  \<open>updateDoc2Doc\<close> gives the stored record after the call, the identity for an
  implementation that copies.
\<close>

record env =
  isDerived :: "ref \<Rightarrow> ref \<Rightarrow> bool"
  getUser :: "ctx \<Rightarrow> error + ref"
  findSpace :: "ref \<Rightarrow> Space option"
  buildDoc2Doc :: "Tx \<Rightarrow> Space option"
  updateDoc2Doc :: "Space \<Rightarrow> Tx \<Rightarrow> Space"
  emails :: "ref list \<Rightarrow> string list"
  provideFindAll :: "ref \<Rightarrow> DocumentQuery \<Rightarrow> FindOptions option \<Rightarrow> error + Doc list"

text \<open>
  What \<open>tx\<close> returns when it does not reject: the transaction is handed to the next
  stage (\<open>provideTx\<close>) and that stage's result is returned with the given notification
  targets merged in.
\<close>

datatype tx_result = Forwarded "string list option"

section \<open>The access index and its mutation operations\<close>

definition addMemberSpace :: "ref \<Rightarrow> ref \<Rightarrow> state \<Rightarrow> state" where
  "addMemberSpace member space st =
     (let arr = (case allowedSpaces st member of None \<Rightarrow> [] | Some a \<Rightarrow> a)
      in st\<lparr>allowedSpaces := (allowedSpaces st)(member \<mapsto> arr @ [space])\<rparr>)"

definition addSpace :: "Space \<Rightarrow> state \<Rightarrow> state" where
  "addSpace space st =
     fold (\<lambda>member s. addMemberSpace member (sp_id space) s) (members space)
       (st\<lparr>privateSpaces := (privateSpaces st)(sp_id space \<mapsto> Some space)\<rparr>)"

text \<open>\<open>findIndex\<close> gives the first position of the id, \<open>splice(index, 1)\<close> deletes
  that one element: \<open>remove1\<close>.\<close>

definition removeMemberSpace :: "ref \<Rightarrow> ref \<Rightarrow> state \<Rightarrow> state" where
  "removeMemberSpace member space st =
     (case allowedSpaces st member of
        None \<Rightarrow> st
      | Some arr \<Rightarrow>
          if space \<in> set arr
          then st\<lparr>allowedSpaces := (allowedSpaces st)(member \<mapsto> remove1 space arr)\<rparr>
          else st)"

definition removeSpace :: "ref \<Rightarrow> state \<Rightarrow> state" where
  "removeSpace i st =
     (case getPrivate st i of
        None \<Rightarrow> st
      | Some space \<Rightarrow>
          (let st' = fold (\<lambda>member s. removeMemberSpace member (sp_id space) s) (members space) st
           in st'\<lparr>privateSpaces := (privateSpaces st')(i \<mapsto> None)\<rparr>))"

definition removePublicSpace :: "ref \<Rightarrow> state \<Rightarrow> state" where
  "removePublicSpace i st =
     (if i \<in> set (publicSpaces st)
      then st\<lparr>publicSpaces := remove1 i (publicSpaces st)\<rparr>
      else st)"

section \<open>Space maintenance from transactions\<close>

definition handleCreate :: "env \<Rightarrow> Tx \<Rightarrow> state \<Rightarrow> state" where
  "handleCreate e createTx st =
     (if \<not> isDerived e (objectClass createTx) core_class_Space then st
      else if attr_private (attributes createTx) then
        (case buildDoc2Doc e createTx of
           Some res \<Rightarrow> addSpace res st
         | None \<Rightarrow> st)
      else st\<lparr>publicSpaces := publicSpaces st @ [objectId createTx]\<rparr>)"

definition pushMembersHandle :: "push_arg \<Rightarrow> ref \<Rightarrow> state \<Rightarrow> state" where
  "pushMembersHandle addedMembers space st =
     (case addedMembers of
        PushEach each \<Rightarrow> fold (\<lambda>member s. addMemberSpace member space s) each st
      | PushOne member \<Rightarrow> addMemberSpace member space st)"

definition pullMembersHandle :: "pull_arg \<Rightarrow> ref \<Rightarrow> state \<Rightarrow> state" where
  "pullMembersHandle removedMembers space st =
     (case removedMembers of
        PullIn None \<Rightarrow> st
      | PullIn (Some ins) \<Rightarrow> fold (\<lambda>member s. removeMemberSpace member space s) ins st
      | PullOne member \<Rightarrow> removeMemberSpace member space st)"

text \<open>\<open>new Set(members)\<close>, as the list of its elements in iteration order: each
  element once, at its first position.\<close>

definition newSet :: "ref list \<Rightarrow> ref list" where
  "newSet xs = rev (remdups (rev xs))"

definition syncMembers :: "ref list \<Rightarrow> ref \<Rightarrow> state \<Rightarrow> state" where
  "syncMembers mems space st =
     (let oldMembers = newSet mems;
          newMembers = newSet mems;
          st1 = fold (\<lambda>old s. if old \<notin> set oldMembers then removeMemberSpace old space s else s)
                  oldMembers st
      in fold (\<lambda>newMem s. if newMem \<notin> set newMembers then addMemberSpace newMem space s else s)
           newMembers st1)"

definition handleUpdate :: "env \<Rightarrow> Tx \<Rightarrow> state \<Rightarrow> state" where
  "handleUpdate e updateDoc st =
     (if \<not> isDerived e (objectClass updateDoc) core_class_Space then st
      else
        let ops = operations updateDoc;
            st1 = (case op_private ops of
                     None \<Rightarrow> st
                   | Some True \<Rightarrow>
                       (case findSpace e (objectId updateDoc) of
                          Some res0 \<Rightarrow>
                            (let res = res0\<lparr>sp_private := True\<rparr>
                             in removePublicSpace (sp_id res) (addSpace res st))
                        | None \<Rightarrow> st)
                   | Some False \<Rightarrow>
                       (let s = removeSpace (objectId updateDoc) st
                        in s\<lparr>publicSpaces := publicSpaces s @ [objectId updateDoc]\<rparr>))
        in case getPrivate st1 (objectId updateDoc) of
             None \<Rightarrow> st1
           | Some space \<Rightarrow>
               (let st2 = (case op_members ops of
                             Some ms \<Rightarrow> syncMembers ms (sp_id space) st1
                           | None \<Rightarrow> st1);
                    st3 = (case op_push_members ops of
                             Some a \<Rightarrow> pushMembersHandle a (sp_id space) st2
                           | None \<Rightarrow> st2);
                    st4 = (case op_pull_members ops of
                             Some r \<Rightarrow> pullMembersHandle r (sp_id space) st3
                           | None \<Rightarrow> st3)
                in st4\<lparr>privateSpaces :=
                     (privateSpaces st4)(objectId updateDoc \<mapsto> Some (updateDoc2Doc e space updateDoc))\<rparr>))"

definition handleRemove :: "env \<Rightarrow> Tx \<Rightarrow> state \<Rightarrow> state" where
  "handleRemove e removeTx st =
     (if \<not> isDerived e (objectClass removeTx) core_class_Space then st
      else if tx_class removeTx \<noteq> core_class_TxCreateDoc then st
      else removePublicSpace (objectId removeTx) (removeSpace (objectId removeTx) st))"

definition handleTx :: "env \<Rightarrow> Tx \<Rightarrow> state \<Rightarrow> state" where
  "handleTx e t st =
     (if tx_class t = core_class_TxCreateDoc then handleCreate e t st
      else if tx_class t = core_class_TxUpdateDoc then handleUpdate e t st
      else if tx_class t = core_class_TxRemoveDoc then handleRemove e t st
      else st)"

section \<open>Write authorization\<close>

definition getTargets :: "env \<Rightarrow> ref list option \<Rightarrow> string list option" where
  "getTargets e accounts = (case accounts of None \<Rightarrow> None | Some accs \<Rightarrow> Some (emails e accs))"

text \<open>The id the caller's permissions are checked against:
  \<open>isSpace ? cudTx.objectId : tx.objectSpace\<close>.\<close>

definition effectiveSpace :: "env \<Rightarrow> Tx \<Rightarrow> ref" where
  "effectiveSpace e t =
     (if isDerived e (objectClass t) core_class_Space then objectId t else objectSpace t)"

text \<open>The index when the permission check runs: after \<open>handleTx\<close>, for a transaction
  on a Space-derived class.\<close>

definition maintained :: "env \<Rightarrow> Tx \<Rightarrow> state \<Rightarrow> state" where
  "maintained e t st =
     (if isDerived e (objectClass t) core_class_Space then handleTx e t st else st)"

text \<open>\<open>tx\<close> returns what it raises or returns, and the index it leaves: a rejection
  does not undo what \<open>handleTx\<close> did before it.\<close>

definition tx :: "env \<Rightarrow> ctx \<Rightarrow> Tx \<Rightarrow> state \<Rightarrow> (error + tx_result) \<times> state" where
  "tx e c t st =
     (if isDerived e (tx_class t) core_class_TxCUD then
        (let st1 = maintained e t st in
         case getPrivate st1 (objectSpace t) of
           None \<Rightarrow> (Inr (Forwarded None), st1)
         | Some space \<Rightarrow>
             (case getUser e c of
                Inl err \<Rightarrow> (Inl err, st1)
              | Inr account \<Rightarrow>
                  if account \<noteq> core_account_System \<and>
                     (case allowedSpaces st1 account of
                        None \<Rightarrow> True
                      | Some allowed \<Rightarrow> effectiveSpace e t \<notin> set allowed)
                  then (Inl Forbidden, st1)
                  else (Inr (Forwarded
                          (getTargets e (map_option members (getPrivate st1 (objectSpace t))))), st1)))
      else (Inr (Forwarded None), st))"

section \<open>Query rewriting\<close>

definition getAllAllowedSpaces :: "env \<Rightarrow> state \<Rightarrow> ctx \<Rightarrow> ref list" where
  "getAllAllowedSpaces e st c =
     (case getUser e c of
        Inr account \<Rightarrow>
          (let userSpaces = (case allowedSpaces st account of None \<Rightarrow> [] | Some a \<Rightarrow> a)
           in userSpaces @ [account] @ publicSpaces st @ systemSpaces)
      | Inl err \<Rightarrow> publicSpaces st @ systemSpaces)"

definition mergeQuery :: "env \<Rightarrow> state \<Rightarrow> ctx \<Rightarrow> space_query \<Rightarrow> error + space_query" where
  "mergeQuery e st c query =
     (let spaces = getAllAllowedSpaces e st c in
      case query of
        Literal s \<Rightarrow> if s \<notin> set spaces then Inl Forbidden else Inr (Literal s)
      | Selector (Some ins) rest \<Rightarrow> Inr (Selector (Some (filter (\<lambda>p. p \<in> set spaces) ins)) rest)
      | Selector None rest \<Rightarrow> Inr (Selector (Some spaces) rest))"

text \<open>The query \<open>findAll\<close> hands to the next stage, or the error raised before that.\<close>

definition rewriteQuery :: "env \<Rightarrow> state \<Rightarrow> ctx \<Rightarrow> DocumentQuery \<Rightarrow> error + DocumentQuery" where
  "rewriteQuery e st c query =
     (case q_space query of
        Some sq \<Rightarrow>
          (case mergeQuery e st c sq of
             Inl err \<Rightarrow> Inl err
           | Inr sq' \<Rightarrow> Inr (query\<lparr>q_space := Some sq'\<rparr>))
      | None \<Rightarrow> Inr (query\<lparr>q_space := Some (Selector (Some (getAllAllowedSpaces e st c)) [])\<rparr>))"

section \<open>Lookup filtering\<close>

definition isUnavailable :: "env \<Rightarrow> state \<Rightarrow> ctx \<Rightarrow> ref \<Rightarrow> error + bool" where
  "isUnavailable e st c space =
     (if getPrivate st space = None then Inr False
      else case getUser e c of
             Inl err \<Rightarrow> Inl err
           | Inr account \<Rightarrow>
               if account = core_account_System then Inr False
               else Inr (\<not> (case allowedSpaces st account of
                              None \<Rightarrow> False
                            | Some allowed \<Rightarrow> space \<in> set allowed)))"

fun filterArr :: "env \<Rightarrow> state \<Rightarrow> ctx \<Rightarrow> AttachedDoc list \<Rightarrow> error + AttachedDoc list" where
  "filterArr e st c [] = Inr []"
| "filterArr e st c (v # vs) =
     (case isUnavailable e st c (sub_space v) of
        Inl err \<Rightarrow> Inl err
      | Inr u \<Rightarrow>
          (case filterArr e st c vs of
             Inl err \<Rightarrow> Inl err
           | Inr arr \<Rightarrow> Inr (if u then arr else v # arr)))"

definition filterVal :: "env \<Rightarrow> state \<Rightarrow> ctx \<Rightarrow> lookup_val \<Rightarrow> error + lookup_val" where
  "filterVal e st c val =
     (case val of
        LArr vs \<Rightarrow> (case filterArr e st c vs of Inl err \<Rightarrow> Inl err | Inr arr \<Rightarrow> Inr (LArr arr))
      | LOne None \<Rightarrow> Inr (LOne None)
      | LOne (Some v) \<Rightarrow>
          (case isUnavailable e st c (sub_space v) of
             Inl err \<Rightarrow> Inl err
           | Inr u \<Rightarrow> Inr (if u then LOne None else LOne (Some v))))"

fun filterLookup :: "env \<Rightarrow> state \<Rightarrow> ctx \<Rightarrow> LookupData \<Rightarrow> error + LookupData" where
  "filterLookup e st c [] = Inr []"
| "filterLookup e st c ((key, val) # rest) =
     (case filterVal e st c val of
        Inl err \<Rightarrow> Inl err
      | Inr val' \<Rightarrow>
          (case filterLookup e st c rest of
             Inl err \<Rightarrow> Inl err
           | Inr rest' \<Rightarrow> Inr ((key, val') # rest')))"

fun filterResult :: "env \<Rightarrow> state \<Rightarrow> ctx \<Rightarrow> Doc list \<Rightarrow> error + Doc list" where
  "filterResult e st c [] = Inr []"
| "filterResult e st c (object # objects) =
     (case (case doc_lookup object of
              None \<Rightarrow> Inr object
            | Some lookup \<Rightarrow>
                (case filterLookup e st c lookup of
                   Inl err \<Rightarrow> Inl err
                 | Inr lookup' \<Rightarrow> Inr (object\<lparr>doc_lookup := Some lookup'\<rparr>))) of
        Inl err \<Rightarrow> Inl err
      | Inr object' \<Rightarrow>
          (case filterResult e st c objects of
             Inl err \<Rightarrow> Inl err
           | Inr objects' \<Rightarrow> Inr (object' # objects')))"

definition lookupRequested :: "FindOptions option \<Rightarrow> bool" where
  "lookupRequested options = (case options of None \<Rightarrow> False | Some opts \<Rightarrow> opt_lookup opts \<noteq> None)"

definition findAll ::
  "env \<Rightarrow> state \<Rightarrow> ctx \<Rightarrow> ref \<Rightarrow> DocumentQuery \<Rightarrow> FindOptions option \<Rightarrow> error + Doc list" where
  "findAll e st c cls query options =
     (case rewriteQuery e st c query of
        Inl err \<Rightarrow> Inl err
      | Inr newQuery \<Rightarrow>
          (case provideFindAll e cls newQuery options of
             Inl err \<Rightarrow> Inl err
           | Inr findResult \<Rightarrow>
               if lookupRequested options then filterResult e st c findResult
               else Inr findResult))"

section \<open>Vocabulary of the properties\<close>


definition linkSet :: "state \<Rightarrow> ref \<Rightarrow> ref set" where
  "linkSet st a = (case allowedSpaces st a of None \<Rightarrow> {} | Some arr \<Rightarrow> set arr)"


text \<open>\<open>allowed !== undefined && allowed.includes(space)\<close>: the account holds a link to
  the space.\<close>

definition isMember :: "state \<Rightarrow> ref \<Rightarrow> ref \<Rightarrow> bool" where
  "isMember st a i = (case allowedSpaces st a of None \<Rightarrow> False | Some allowed \<Rightarrow> i \<in> set allowed)"

text \<open>
  What "the query returns no documents" needs of the next stage, which the middleware
  only calls: every document it returns for a query whose space criterion holds an
  inclusion set lies in one of the listed spaces.
\<close>

definition honoursInclusion :: "env \<Rightarrow> bool" where
  "honoursInclusion e =
     (\<forall>cls q opts res ins rest d.
        provideFindAll e cls q opts = Inr res \<longrightarrow> q_space q = Some (Selector (Some ins) rest) \<longrightarrow>
        d \<in> set res \<longrightarrow> doc_space d \<in> set ins)"

text \<open>
  The availability rule in the words of the specification: a space is unavailable to an
  account when it is a tracked private space, the account is not the system account and
  the account is not a member of it. \<open>filteredVal\<close> is a lookup entry with exactly the
  unavailable joined objects removed from an array, and a single unavailable one nulled.
\<close>

definition unavailableTo :: "state \<Rightarrow> ref \<Rightarrow> ref \<Rightarrow> bool" where
  "unavailableTo st a space =
     (getPrivate st space \<noteq> None \<and> a \<noteq> core_account_System \<and> \<not> isMember st a space)"

definition filteredVal :: "state \<Rightarrow> ref \<Rightarrow> lookup_val \<Rightarrow> lookup_val" where
  "filteredVal st a val =
     (case val of
        LArr vs \<Rightarrow> LArr (filter (\<lambda>v. \<not> unavailableTo st a (sub_space v)) vs)
      | LOne None \<Rightarrow> LOne None
      | LOne (Some v) \<Rightarrow> if unavailableTo st a (sub_space v) then LOne None else LOne (Some v))"

text \<open>The spaces of the joined objects of a lookup entry, of a lookup, and whether no
  space of a list is tracked as private.\<close>

definition valSpaces :: "lookup_val \<Rightarrow> ref list" where
  "valSpaces val =
     (case val of LArr vs \<Rightarrow> map sub_space vs | LOne None \<Rightarrow> [] | LOne (Some v) \<Rightarrow> [sub_space v])"

definition lookupSpaces :: "LookupData \<Rightarrow> ref list" where
  "lookupSpaces lookup = concat (map (\<lambda>(key, val). valSpaces val) lookup)"

definition untracked :: "state \<Rightarrow> ref list \<Rightarrow> bool" where
  "untracked st spaces = list_all (\<lambda>s. getPrivate st s = None) spaces"

text \<open>No document of the result joins an object of a tracked private space.\<close>

definition noPrivateLookups :: "state \<Rightarrow> Doc list \<Rightarrow> bool" where
  "noPrivateLookups st res =
     list_all (\<lambda>d. case doc_lookup d of None \<Rightarrow> True
                                        | Some lookup \<Rightarrow> untracked st (lookupSpaces lookup)) res"

section \<open>Concrete inputs\<close>

text \<open>
  A small deployment: the hierarchy knows the three document transaction classes as
  derived from \<open>TxCUD\<close>; the session context is the caller's account id, and the empty
  context resolves to no account; \<open>buildDoc2Doc\<close> takes the space from the creation's
  attributes; \<open>updateDoc2Doc\<close> copies; the next stage has one document of the public
  space \<open>P1\<close> that joins a document of the private space \<open>S1\<close>.
\<close>

definition docJoined :: Doc where
  "docJoined = \<lparr>doc_id = ''d1'', doc_space = ''P1'',
      doc_lookup = Some [(''parent'', LOne (Some \<lparr>sub_id = ''d2'', sub_space = ''S1''\<rparr>))]\<rparr>"

definition env0 :: env where
  "env0 = \<lparr>isDerived = (\<lambda>c b. c = b \<or> (b = core_class_TxCUD \<and>
               c \<in> set [core_class_TxCreateDoc, core_class_TxUpdateDoc, core_class_TxRemoveDoc])),
     getUser = (\<lambda>c. if c = [] then Inl (Failure ''no account'') else Inr c),
     findSpace = (\<lambda>i. None),
     buildDoc2Doc = (\<lambda>t. Some \<lparr>sp_id = objectId t, sp_private = attr_private (attributes t),
                               members = attr_members (attributes t)\<rparr>),
     updateDoc2Doc = (\<lambda>s t. s),
     emails = (\<lambda>accs. accs),
     provideFindAll = (\<lambda>cls q opts.
        Inr (filter (\<lambda>d. case q_space q of
                             Some (Literal s) \<Rightarrow> doc_space d = s
                           | Some (Selector (Some ins) rest) \<Rightarrow> doc_space d \<in> set ins
                           | _ \<Rightarrow> True) [docJoined]))\<rparr>"

text \<open>The index with one private space \<open>S1\<close> whose only member is \<open>A\<close>, and one public
  space \<open>P1\<close>.\<close>

definition spaceS1 :: Space where
  "spaceS1 = \<lparr>sp_id = ''S1'', sp_private = True, members = [''A'']\<rparr>"

definition indexS1 :: state where
  "indexS1 = \<lparr>allowedSpaces = [''A'' \<mapsto> [''S1'']],
               privateSpaces = [''S1'' \<mapsto> Some spaceS1],
               publicSpaces = [''P1'']\<rparr>"

definition emptyIndex :: state where
  "emptyIndex = \<lparr>allowedSpaces = Map.empty, privateSpaces = Map.empty, publicSpaces = []\<rparr>"

definition noOps :: DocumentUpdate where
  "noOps = \<lparr>op_private = None, op_members = None, op_push_members = None, op_pull_members = None\<rparr>"

text \<open>A transaction on the space \<open>i\<close> itself: its object class is \<open>Space\<close> and it lives
  in the system space \<open>core:space:Space\<close>.\<close>

definition spaceTx :: "ref \<Rightarrow> ref \<Rightarrow> DocumentUpdate \<Rightarrow> Tx" where
  "spaceTx cls i ops = \<lparr>tx_class = cls, objectClass = core_class_Space, objectId = i,
       objectSpace = ''core:space:Space'',
       attributes = \<lparr>attr_private = False, attr_members = []\<rparr>, operations = ops\<rparr>"

text \<open>A transaction on the space \<open>i\<close> that lives in the space \<open>sp\<close>.\<close>

definition spaceTxIn :: "ref \<Rightarrow> ref \<Rightarrow> ref \<Rightarrow> DocumentUpdate \<Rightarrow> Tx" where
  "spaceTxIn cls i sp ops = \<lparr>tx_class = cls, objectClass = core_class_Space, objectId = i,
       objectSpace = sp,
       attributes = \<lparr>attr_private = False, attr_members = []\<rparr>, operations = ops\<rparr>"

text \<open>A transaction on a document \<open>i\<close> of class \<open>Issue\<close> in the space \<open>sp\<close>.\<close>

definition docTx :: "ref \<Rightarrow> ref \<Rightarrow> ref \<Rightarrow> Tx" where
  "docTx cls i sp = \<lparr>tx_class = cls, objectClass = ''tracker:class:Issue'', objectId = i,
       objectSpace = sp,
       attributes = \<lparr>attr_private = False, attr_members = []\<rparr>, operations = noOps\<rparr>"

definition queryOf :: "space_query option \<Rightarrow> DocumentQuery" where
  "queryOf sq = \<lparr>q_space = sq, q_rest = []\<rparr>"

text \<open>The index with the public space \<open>P1\<close> only.\<close>

definition indexPublic :: state where
  "indexPublic = \<lparr>allowedSpaces = Map.empty, privateSpaces = Map.empty, publicSpaces = [''P1'']\<rparr>"

text \<open>A lookup with a single joined object and an array of two.\<close>

definition lookupEx :: LookupData where
  "lookupEx = [(''parent'', LOne (Some \<lparr>sub_id = ''d2'', sub_space = ''S1''\<rparr>)),
               (''comments'', LArr [\<lparr>sub_id = ''d3'', sub_space = ''S1''\<rparr>,
                                    \<lparr>sub_id = ''d4'', sub_space = ''P1''\<rparr>])]"

text \<open>Options that request a lookup.\<close>

definition withLookup :: "FindOptions option" where
  "withLookup = Some \<lparr>opt_lookup = Some [''parent'']\<rparr>"

section \<open>Properties\<close>

lemma getPrivate_simps:
  "privateSpaces st i = None \<Longrightarrow> getPrivate st i = None"
  "privateSpaces st i = Some v \<Longrightarrow> getPrivate st i = v"
  by (simp_all add: getPrivate_def)

subsection \<open>The index operations\<close>

lemma fold_unchanged:
  "(\<And>x s. x \<in> set xs \<Longrightarrow> f x s = s) \<Longrightarrow> fold f xs st = st"
  by (induction xs arbitrary: st) simp_all

lemma syncMembers_unchanged: "syncMembers ms space st = st"
  by (simp add: syncMembers_def Let_def fold_unchanged)

lemma class_ids_distinct:
  "core_class_TxRemoveDoc \<noteq> core_class_TxCreateDoc"
  "core_class_TxRemoveDoc \<noteq> core_class_TxUpdateDoc"
  "core_class_TxUpdateDoc \<noteq> core_class_TxCreateDoc"
  by (simp_all add: core_class_TxRemoveDoc_def core_class_TxCreateDoc_def core_class_TxUpdateDoc_def)

lemma handleTx_remove_unchanged:
  "tx_class t = core_class_TxRemoveDoc \<Longrightarrow> handleTx e t st = st"
  by (simp add: handleTx_def handleRemove_def class_ids_distinct)

lemma removeMemberSpace_private [simp]:
  "privateSpaces (removeMemberSpace a i st) = privateSpaces st"
  by (simp add: removeMemberSpace_def split: option.splits)

lemma removeMemberSpace_public [simp]:
  "publicSpaces (removeMemberSpace a i st) = publicSpaces st"
  by (simp add: removeMemberSpace_def split: option.splits)

lemma addMemberSpace_private [simp]:
  "privateSpaces (addMemberSpace a i st) = privateSpaces st"
  by (simp add: addMemberSpace_def)

lemma addMemberSpace_public [simp]:
  "publicSpaces (addMemberSpace a i st) = publicSpaces st"
  by (simp add: addMemberSpace_def)

lemma fold_removeMemberSpace_private [simp]:
  "privateSpaces (fold (\<lambda>m s. removeMemberSpace m i s) ms st) = privateSpaces st"
  by (induction ms arbitrary: st) simp_all

lemma fold_removeMemberSpace_public [simp]:
  "publicSpaces (fold (\<lambda>m s. removeMemberSpace m i s) ms st) = publicSpaces st"
  by (induction ms arbitrary: st) simp_all

lemma fold_addMemberSpace_private [simp]:
  "privateSpaces (fold (\<lambda>m s. addMemberSpace m i s) ms st) = privateSpaces st"
  by (induction ms arbitrary: st) simp_all

lemma fold_addMemberSpace_public [simp]:
  "publicSpaces (fold (\<lambda>m s. addMemberSpace m i s) ms st) = publicSpaces st"
  by (induction ms arbitrary: st) simp_all





lemma in_set_count_list: "x \<in> set xs \<longleftrightarrow> 0 < count_list xs x"
  by (induction xs) auto

lemma count_list_remove1:
  "count_list (remove1 x xs) x = count_list xs x - 1"
  by (induction xs) (auto simp: in_set_count_list)

lemma remove1_twice:
  "count_list xs x \<le> 1 \<Longrightarrow> remove1 x (remove1 x xs) = remove1 x xs"
proof -
  assume "count_list xs x \<le> 1"
  then have "count_list (remove1 x xs) x = 0" by (simp add: count_list_remove1)
  then have "x \<notin> set (remove1 x xs)" by (simp add: in_set_count_list)
  then show ?thesis by (simp add: remove1_idem)
qed








lemma linkSet_private_update [simp]: "linkSet (st\<lparr>privateSpaces := p\<rparr>) a = linkSet st a"
  by (simp add: linkSet_def)









subsection \<open>Space maintenance\<close>

text \<open>
  C4, what the code does: an update of a space whose only operation is a full replacement
  of \<open>members\<close> leaves every account's allowed spaces as they were, whatever the new
  member list is. \<open>syncMembers\<close> builds both of its sets from the new list and tests each
  element for absence from the set it was taken from, so it never adds or removes a link.
\<close>

theorem members_replacement_ignored:
  "allowedSpaces (handleUpdate e (t\<lparr>operations := noOps\<lparr>op_members := Some ms\<rparr>\<rparr>) st)
     = allowedSpaces st"
  by (simp add: handleUpdate_def noOps_def syncMembers_unchanged Let_def split: option.splits)

lemma members_replacement_example:
  "allowedSpaces (handleTx env0
      (spaceTx core_class_TxUpdateDoc ''S1'' (noOps\<lparr>op_members := Some [''B'']\<rparr>)) indexS1) ''A''
     = Some [''S1'']
   \<and> allowedSpaces (handleTx env0
      (spaceTx core_class_TxUpdateDoc ''S1'' (noOps\<lparr>op_members := Some [''B'']\<rparr>)) indexS1) ''B''
     = None"
  by (simp add: handleTx_def class_ids_distinct handleUpdate_def spaceTx_def env0_def noOps_def
      syncMembers_unchanged indexS1_def getPrivate_def Let_def)

text \<open>
  C2, what the code does: \<open>handleTx\<close> leaves the index as it was for every transaction of
  class \<open>TxRemoveDoc\<close>. \<open>handleRemove\<close> is reached only for that class and returns unless
  the class is \<open>TxCreateDoc\<close>, so its calls of \<open>removeSpace\<close> and \<open>removePublicSpace\<close>
  are never reached.
\<close>

theorem remove_transaction_ignored:
  "handleTx e (t\<lparr>tx_class := core_class_TxRemoveDoc\<rparr>) st = st"
  by (simp add: handleTx_remove_unchanged)

lemma remove_transaction_example:
  "getPrivate (handleTx env0 (spaceTx core_class_TxRemoveDoc ''S1'' noOps) indexS1) ''S1''
     = Some spaceS1
   \<and> publicSpaces (handleTx env0 (spaceTx core_class_TxRemoveDoc ''P1'' noOps) indexS1) = [''P1'']"
  by (simp add: handleTx_remove_unchanged spaceTx_def indexS1_def getPrivate_def)

subsection \<open>Write authorization\<close>

lemmas ex_defs = env0_def indexS1_def spaceS1_def docTx_def spaceTx_def spaceTxIn_def noOps_def
  core_class_TxCUD_def core_class_Space_def core_class_TxCreateDoc_def core_class_TxUpdateDoc_def
  core_class_TxRemoveDoc_def core_account_System_def

lemma tx_state:
  "snd (tx e c t st) = (if isDerived e (tx_class t) core_class_TxCUD then maintained e t st else st)"
  by (simp add: tx_def Let_def split: option.splits sum.splits)

lemma tx_Forbidden_iff:
  assumes "isDerived e (tx_class t) core_class_TxCUD" and "getUser e c = Inr a"
  shows "fst (tx e c t st) = Inl Forbidden \<longleftrightarrow>
           getPrivate (maintained e t st) (objectSpace t) \<noteq> None
           \<and> a \<noteq> core_account_System
           \<and> \<not> isMember (maintained e t st) a (effectiveSpace e t)"
  using assms by (auto simp: tx_def Let_def isMember_def split: option.splits)

lemma maintained_document [simp]:
  "\<not> isDerived e (objectClass t) core_class_Space \<Longrightarrow> maintained e t st = st"
  by (simp add: maintained_def)

lemma effectiveSpace_document [simp]:
  "\<not> isDerived e (objectClass t) core_class_Space \<Longrightarrow> effectiveSpace e t = objectSpace t"
  by (simp add: effectiveSpace_def)

text \<open>
  C1, as amended. A write transaction (class derived from \<open>TxCUD\<close>) on a document whose
  class is not Space-derived, whose effective space (its \<open>objectSpace\<close>) is tracked as
  private and whose resolved caller is neither the system account nor holds a link to
  that space, is rejected with \<open>Forbidden\<close> and the index is left exactly as it was.
  In general the index \<open>tx\<close> leaves, rejected or not, is the one \<open>handleTx\<close> produced
  for a transaction on a Space-derived class, and the unchanged one otherwise.
\<close>

theorem tx_rejects_document_write:
  "(isDerived e (tx_class t) core_class_TxCUD
      \<and> \<not> isDerived e (objectClass t) core_class_Space
      \<and> getPrivate st (effectiveSpace e t) \<noteq> None
      \<and> getUser e c = Inr a \<and> a \<noteq> core_account_System
      \<and> \<not> isMember st a (effectiveSpace e t)
    \<longrightarrow> tx e c t st = (Inl Forbidden, st))
   \<and> snd (tx e c t st) =
       (if isDerived e (tx_class t) core_class_TxCUD \<and> isDerived e (objectClass t) core_class_Space
        then handleTx e t st else st)"
proof (intro conjI impI)
  assume h: "isDerived e (tx_class t) core_class_TxCUD
      \<and> \<not> isDerived e (objectClass t) core_class_Space
      \<and> getPrivate st (effectiveSpace e t) \<noteq> None
      \<and> getUser e c = Inr a \<and> a \<noteq> core_account_System
      \<and> \<not> isMember st a (effectiveSpace e t)"
  then have doc: "\<not> isDerived e (objectClass t) core_class_Space" by simp
  from h doc have "fst (tx e c t st) = Inl Forbidden"
    by (simp add: tx_Forbidden_iff [of e t c a st])
  moreover from doc have "snd (tx e c t st) = st"
    by (simp add: tx_state)
  ultimately show "tx e c t st = (Inl Forbidden, st)"
    by (simp add: prod_eq_iff)
next
  show "snd (tx e c t st) =
       (if isDerived e (tx_class t) core_class_TxCUD \<and> isDerived e (objectClass t) core_class_Space
        then handleTx e t st else st)"
    by (simp add: tx_state maintained_def)
qed

text \<open>
  C1, witness: account \<open>B\<close>, not a member of the private space \<open>S1\<close>, creates an issue
  in \<open>S1\<close>.
\<close>

theorem tx_rejects_document_write_witness:
  "isDerived env0 (tx_class (docTx core_class_TxCreateDoc ''i1'' ''S1'')) core_class_TxCUD
   \<and> \<not> isDerived env0 (objectClass (docTx core_class_TxCreateDoc ''i1'' ''S1'')) core_class_Space
   \<and> getPrivate indexS1 (effectiveSpace env0 (docTx core_class_TxCreateDoc ''i1'' ''S1'')) \<noteq> None
   \<and> getUser env0 ''B'' = Inr ''B'' \<and> ''B'' \<noteq> core_account_System
   \<and> \<not> isMember indexS1 ''B'' (effectiveSpace env0 (docTx core_class_TxCreateDoc ''i1'' ''S1''))
   \<and> tx env0 ''B'' (docTx core_class_TxCreateDoc ''i1'' ''S1'') indexS1 = (Inl Forbidden, indexS1)"
  using tx_rejects_document_write [of env0 "docTx core_class_TxCreateDoc ''i1'' ''S1''" indexS1 "''B''" "''B''"]
  by (simp add: ex_defs getPrivate_def isMember_def effectiveSpace_def)

text \<open>
  C1, counterexample to the claim as stated. Account \<open>B\<close> holds no link to the private
  space \<open>S1\<close> and sends an update of the space \<open>S1\<close> itself that pushes account \<open>C\<close>
  to its members. The effective space is \<open>S1\<close>. When the transaction lives in
  \<open>core:space:Space\<close> it is forwarded, and \<open>C\<close> has gained the link to \<open>S1\<close>. When it
  lives in \<open>S1\<close> it is rejected with \<open>Forbidden\<close>, and \<open>C\<close> has gained the link all the
  same.
\<close>

theorem tx_space_write_counterexample:
  "isDerived env0 (tx_class (spaceTx core_class_TxUpdateDoc ''S1'' (noOps\<lparr>op_push_members := Some (PushOne ''C'')\<rparr>))) core_class_TxCUD
   \<and> effectiveSpace env0 (spaceTx core_class_TxUpdateDoc ''S1'' (noOps\<lparr>op_push_members := Some (PushOne ''C'')\<rparr>)) = ''S1''
   \<and> getPrivate indexS1 ''S1'' \<noteq> None
   \<and> getUser env0 ''B'' = Inr ''B'' \<and> ''B'' \<noteq> core_account_System
   \<and> \<not> isMember indexS1 ''B'' ''S1''
   \<and> fst (tx env0 ''B'' (spaceTx core_class_TxUpdateDoc ''S1'' (noOps\<lparr>op_push_members := Some (PushOne ''C'')\<rparr>)) indexS1)
        = Inr (Forwarded None)
   \<and> allowedSpaces indexS1 ''C'' = None
   \<and> allowedSpaces (snd (tx env0 ''B'' (spaceTx core_class_TxUpdateDoc ''S1'' (noOps\<lparr>op_push_members := Some (PushOne ''C'')\<rparr>)) indexS1)) ''C''
        = Some [''S1'']
   \<and> fst (tx env0 ''B'' (spaceTxIn core_class_TxUpdateDoc ''S1'' ''S1'' (noOps\<lparr>op_push_members := Some (PushOne ''C'')\<rparr>)) indexS1)
        = Inl Forbidden
   \<and> allowedSpaces (snd (tx env0 ''B'' (spaceTxIn core_class_TxUpdateDoc ''S1'' ''S1'' (noOps\<lparr>op_push_members := Some (PushOne ''C'')\<rparr>)) indexS1)) ''C''
        = Some [''S1'']"
  by (simp add: ex_defs getPrivate_def isMember_def effectiveSpace_def tx_def maintained_def
      handleTx_def handleUpdate_def pushMembersHandle_def addMemberSpace_def Let_def)

text \<open>
  C3, what the code does. The id passed to the membership test is \<open>objectId\<close> for a
  Space-derived class, but the test is reached only when \<open>privateSpaces[tx.objectSpace]\<close> is
  defined. Account \<open>B\<close> has no allowed-spaces entry and sends an update of the private
  space \<open>S1\<close> that pulls \<open>A\<close> from its members; the transaction lives in
  \<open>core:space:Space\<close>, as space documents do. The effective space \<open>S1\<close> is tracked as
  private before and after the call and \<open>B\<close> is not the system account, yet the
  transaction is not rejected: it is forwarded, and \<open>A\<close> has lost its link to \<open>S1\<close>.
\<close>

theorem tx_space_gate_forwarded:
  "isDerived env0 (tx_class (spaceTx core_class_TxUpdateDoc ''S1'' (noOps\<lparr>op_pull_members := Some (PullOne ''A'')\<rparr>))) core_class_TxCUD
   \<and> effectiveSpace env0 (spaceTx core_class_TxUpdateDoc ''S1'' (noOps\<lparr>op_pull_members := Some (PullOne ''A'')\<rparr>)) = ''S1''
   \<and> getPrivate indexS1 ''S1'' \<noteq> None
   \<and> getUser env0 ''B'' = Inr ''B'' \<and> ''B'' \<noteq> core_account_System
   \<and> allowedSpaces indexS1 ''B'' = None
   \<and> getPrivate (snd (tx env0 ''B'' (spaceTx core_class_TxUpdateDoc ''S1'' (noOps\<lparr>op_pull_members := Some (PullOne ''A'')\<rparr>)) indexS1)) ''S1'' \<noteq> None
   \<and> allowedSpaces (snd (tx env0 ''B'' (spaceTx core_class_TxUpdateDoc ''S1'' (noOps\<lparr>op_pull_members := Some (PullOne ''A'')\<rparr>)) indexS1)) ''B'' = None
   \<and> fst (tx env0 ''B'' (spaceTx core_class_TxUpdateDoc ''S1'' (noOps\<lparr>op_pull_members := Some (PullOne ''A'')\<rparr>)) indexS1)
        = Inr (Forwarded None)
   \<and> allowedSpaces indexS1 ''A'' = Some [''S1'']
   \<and> allowedSpaces (snd (tx env0 ''B'' (spaceTx core_class_TxUpdateDoc ''S1'' (noOps\<lparr>op_pull_members := Some (PullOne ''A'')\<rparr>)) indexS1)) ''A'' = Some []"
  by (simp add: ex_defs getPrivate_def effectiveSpace_def tx_def maintained_def
      handleTx_def handleUpdate_def pullMembersHandle_def removeMemberSpace_def Let_def)

subsection \<open>The system account\<close>

lemma tx_system_not_rejected:
  "getUser e c = Inr core_account_System \<Longrightarrow> \<exists>targets. fst (tx e c t st) = Inr (Forwarded targets)"
  by (simp add: tx_def Let_def split: option.splits)

lemma isUnavailable_system:
  "getUser e c = Inr core_account_System \<Longrightarrow> isUnavailable e st c space = Inr False"
  by (simp add: isUnavailable_def)

text \<open>
  C6, what the code does on the read path: a query of the system account for the literal
  private space \<open>S1\<close>, of which it is no member, is rejected with \<open>Forbidden\<close>, and its
  query without a space criterion is confined to its own id, the public and the system
  spaces, which leaves \<open>S1\<close> out. (On the write path and in lookup filtering the system
  account does pass.)
\<close>

theorem findAll_system_rejected:
  "getUser env0 core_account_System = Inr core_account_System
   \<and> findAll env0 indexS1 core_account_System ''tracker:class:Issue''
        \<lparr>q_space = Some (Literal ''S1''), q_rest = []\<rparr> None = Inl Forbidden
   \<and> rewriteQuery env0 indexS1 core_account_System \<lparr>q_space = None, q_rest = []\<rparr>
       = Inr \<lparr>q_space = Some (Selector (Some ([core_account_System, ''P1''] @ systemSpaces)) []), q_rest = []\<rparr>
   \<and> ''S1'' \<notin> set ([core_account_System, ''P1''] @ systemSpaces)"
  by (simp add: ex_defs findAll_def rewriteQuery_def mergeQuery_def getAllAllowedSpaces_def
     systemSpaces_def)

subsection \<open>Query rewriting\<close>

lemma rewriteQuery_literal_denied:
  "q_space q = Some (Literal s) \<Longrightarrow> s \<notin> set (getAllAllowedSpaces e st c) \<Longrightarrow>
   rewriteQuery e st c q = Inl Forbidden"
  by (simp add: rewriteQuery_def mergeQuery_def)

lemma rewriteQuery_literal_permitted:
  "q_space q = Some (Literal s) \<Longrightarrow> s \<in> set (getAllAllowedSpaces e st c) \<Longrightarrow>
   rewriteQuery e st c q = Inr q"
  by (simp add: rewriteQuery_def mergeQuery_def)

lemma rewriteQuery_inclusion:
  "q_space q = Some (Selector (Some ins) rest) \<Longrightarrow>
   rewriteQuery e st c q =
     Inr (q\<lparr>q_space := Some (Selector (Some (filter (\<lambda>p. p \<in> set (getAllAllowedSpaces e st c)) ins)) rest)\<rparr>)"
  by (simp add: rewriteQuery_def mergeQuery_def)

lemma rewriteQuery_unconstrained:
  "q_space q = None \<Longrightarrow>
   rewriteQuery e st c q = Inr (q\<lparr>q_space := Some (Selector (Some (getAllAllowedSpaces e st c)) [])\<rparr>)"
  by (simp add: rewriteQuery_def)

lemma getAllAllowedSpaces_resolved:
  "getUser e c = Inr a \<Longrightarrow>
   getAllAllowedSpaces e st c =
     (case allowedSpaces st a of None \<Rightarrow> [] | Some arr \<Rightarrow> arr) @ [a] @ publicSpaces st @ systemSpaces"
  by (simp add: getAllAllowedSpaces_def)

lemma getAllAllowedSpaces_unresolved:
  "getUser e c = Inl err \<Longrightarrow> getAllAllowedSpaces e st c = publicSpaces st @ systemSpaces"
  by (simp add: getAllAllowedSpaces_def)

lemma findAll_unfold:
  "findAll e st c cls q opts =
     (case rewriteQuery e st c q of
        Inl err \<Rightarrow> Inl err
      | Inr q' \<Rightarrow>
          (case provideFindAll e cls q' opts of
             Inl err \<Rightarrow> Inl err
           | Inr r \<Rightarrow> if lookupRequested opts then filterResult e st c r else Inr r))"
  by (simp add: findAll_def)

text \<open>
  C5. For every \<open>findAll\<close> call: a query whose space criterion is a literal id outside
  the caller's permitted spaces fails with \<open>Forbidden\<close>; an inclusion set is replaced by
  its elements that are permitted (its intersection with the permitted set); a query
  with no space criterion gains the inclusion set of the permitted spaces; and the
  rewritten query is the one handed to the next stage. For a caller whose account
  resolves, the permitted spaces are the caller's allowed private spaces, the caller's
  own account id, the public spaces and the system spaces.
\<close>

theorem findAll_space_constraint:
  "(q_space q = Some (Literal s) \<and> s \<notin> set (getAllAllowedSpaces e st c) \<longrightarrow>
      findAll e st c cls q opts = Inl Forbidden)
   \<and> (q_space q = Some (Selector (Some ins) rest) \<longrightarrow>
      rewriteQuery e st c q =
        Inr (q\<lparr>q_space := Some (Selector (Some (filter (\<lambda>p. p \<in> set (getAllAllowedSpaces e st c)) ins)) rest)\<rparr>)
      \<and> set (filter (\<lambda>p. p \<in> set (getAllAllowedSpaces e st c)) ins)
          = set ins \<inter> set (getAllAllowedSpaces e st c))
   \<and> (q_space q = None \<longrightarrow>
      rewriteQuery e st c q = Inr (q\<lparr>q_space := Some (Selector (Some (getAllAllowedSpaces e st c)) [])\<rparr>))
   \<and> (getUser e c = Inr a \<longrightarrow>
      getAllAllowedSpaces e st c =
        (case allowedSpaces st a of None \<Rightarrow> [] | Some arr \<Rightarrow> arr) @ [a] @ publicSpaces st @ systemSpaces
      \<and> set (getAllAllowedSpaces e st c) = linkSet st a \<union> {a} \<union> set (publicSpaces st) \<union> set systemSpaces)
   \<and> findAll e st c cls q opts =
       (case rewriteQuery e st c q of
          Inl err \<Rightarrow> Inl err
        | Inr q' \<Rightarrow>
            (case provideFindAll e cls q' opts of
               Inl err \<Rightarrow> Inl err
             | Inr r \<Rightarrow> if lookupRequested opts then filterResult e st c r else Inr r))"
proof (intro conjI impI)
  assume "q_space q = Some (Literal s) \<and> s \<notin> set (getAllAllowedSpaces e st c)"
  then show "findAll e st c cls q opts = Inl Forbidden"
    by (simp add: findAll_def rewriteQuery_literal_denied)
next
  assume "q_space q = Some (Selector (Some ins) rest)"
  then show "rewriteQuery e st c q =
        Inr (q\<lparr>q_space := Some (Selector (Some (filter (\<lambda>p. p \<in> set (getAllAllowedSpaces e st c)) ins)) rest)\<rparr>)"
    by (rule rewriteQuery_inclusion)
next
  show "set (filter (\<lambda>p. p \<in> set (getAllAllowedSpaces e st c)) ins)
          = set ins \<inter> set (getAllAllowedSpaces e st c)"
    by auto
next
  assume "q_space q = None"
  then show "rewriteQuery e st c q = Inr (q\<lparr>q_space := Some (Selector (Some (getAllAllowedSpaces e st c)) [])\<rparr>)"
    by (rule rewriteQuery_unconstrained)
next
  assume r: "getUser e c = Inr a"
  then show "getAllAllowedSpaces e st c =
        (case allowedSpaces st a of None \<Rightarrow> [] | Some arr \<Rightarrow> arr) @ [a] @ publicSpaces st @ systemSpaces"
    by (rule getAllAllowedSpaces_resolved)
  from r show "set (getAllAllowedSpaces e st c) = linkSet st a \<union> {a} \<union> set (publicSpaces st) \<union> set systemSpaces"
    by (auto simp: getAllAllowedSpaces_resolved linkSet_def split: option.splits)
next
  show "findAll e st c cls q opts =
       (case rewriteQuery e st c q of
          Inl err \<Rightarrow> Inl err
        | Inr q' \<Rightarrow>
            (case provideFindAll e cls q' opts of
               Inl err \<Rightarrow> Inl err
             | Inr r \<Rightarrow> if lookupRequested opts then filterResult e st c r else Inr r))"
    by (rule findAll_unfold)
qed

lemma env0_simps:
  "isDerived env0 c b \<longleftrightarrow> c = b \<or> (b = core_class_TxCUD \<and>
       c \<in> set [core_class_TxCreateDoc, core_class_TxUpdateDoc, core_class_TxRemoveDoc])"
  "getUser env0 c' = (if c' = [] then Inl (Failure ''no account'') else Inr c')"
  "provideFindAll env0 cls q opts =
     Inr (filter (\<lambda>d. case q_space q of
                             Some (Literal s) \<Rightarrow> doc_space d = s
                           | Some (Selector (Some ins) rest) \<Rightarrow> doc_space d \<in> set ins
                           | _ \<Rightarrow> True) [docJoined])"
  by (simp_all add: env0_def)

lemma permitted_B: "getAllAllowedSpaces env0 indexS1 ''B'' = [''B'', ''P1''] @ systemSpaces"
  by (simp add: getAllAllowedSpaces_def env0_simps indexS1_def)

text \<open>
  C5, witness: account \<open>B\<close>, not a member of the private space \<open>S1\<close>, queries the
  literal \<open>S1\<close>, the inclusion set \<open>[S1, P1]\<close>, and without a space criterion.
\<close>

theorem findAll_space_constraint_witness:
  "getUser env0 ''B'' = Inr ''B''
   \<and> getAllAllowedSpaces env0 indexS1 ''B'' = [''B'', ''P1''] @ systemSpaces
   \<and> ''S1'' \<notin> set (getAllAllowedSpaces env0 indexS1 ''B'')
   \<and> findAll env0 indexS1 ''B'' ''tracker:class:Issue'' (queryOf (Some (Literal ''S1''))) None = Inl Forbidden
   \<and> rewriteQuery env0 indexS1 ''B'' (queryOf (Some (Selector (Some [''S1'', ''P1'']) [])))
       = Inr (queryOf (Some (Selector (Some [''P1'']) [])))
   \<and> rewriteQuery env0 indexS1 ''B'' (queryOf None)
       = Inr (queryOf (Some (Selector (Some ([''B'', ''P1''] @ systemSpaces)) [])))"
proof -
  have u: "getUser env0 ''B'' = Inr ''B''"
    by (simp add: env0_simps)
  have n: "''S1'' \<notin> set (getAllAllowedSpaces env0 indexS1 ''B'')"
    by (simp add: permitted_B systemSpaces_def)
  have "findAll env0 indexS1 ''B'' ''tracker:class:Issue'' (queryOf (Some (Literal ''S1''))) None = Inl Forbidden"
    using n findAll_space_constraint [of "queryOf (Some (Literal ''S1''))" "''S1''" env0 indexS1 "''B''"]
    by (simp add: queryOf_def)
  moreover have "rewriteQuery env0 indexS1 ''B'' (queryOf (Some (Selector (Some [''S1'', ''P1'']) [])))
       = Inr (queryOf (Some (Selector (Some [''P1'']) [])))"
    using findAll_space_constraint [of "queryOf (Some (Selector (Some [''S1'', ''P1'']) []))" _ env0 indexS1 "''B''"
          _ _ "[''S1'', ''P1'']" "[]"]
    by (simp add: queryOf_def permitted_B systemSpaces_def)
  moreover have "rewriteQuery env0 indexS1 ''B'' (queryOf None)
       = Inr (queryOf (Some (Selector (Some ([''B'', ''P1''] @ systemSpaces)) [])))"
    using findAll_space_constraint [of "queryOf None" _ env0 indexS1 "''B''"]
    by (simp add: queryOf_def permitted_B)
  ultimately show ?thesis using u n permitted_B by simp
qed

lemma honoursInclusion_env0: "honoursInclusion env0"
  by (auto simp: honoursInclusion_def env0_simps split: if_splits)

lemma filter_none:
  "\<forall>p\<in>set ins. \<not> P p \<Longrightarrow> filter P ins = []"
  by (induction ins) auto

lemma filterResult_Nil: "filterResult e st c [] = Inr []"
  by simp

text \<open>
  C10. \<open>mergeQuery\<close> never raises on an inclusion set: the set is reduced to its permitted
  elements. When none of the listed ids is permitted it becomes the empty list, and
  \<open>findAll\<close> then returns no documents, given a next stage that honours inclusion sets
  (or raises what the next stage raises). The same denied id written as a literal makes
  \<open>mergeQuery\<close> and \<open>findAll\<close> fail with \<open>Forbidden\<close>.
\<close>

theorem mergeQuery_inclusion_never_forbidden:
  "mergeQuery e st c (Selector (Some ins) rest) =
     Inr (Selector (Some (filter (\<lambda>p. p \<in> set (getAllAllowedSpaces e st c)) ins)) rest)
   \<and> ((\<forall>p\<in>set ins. p \<notin> set (getAllAllowedSpaces e st c)) \<longrightarrow>
        mergeQuery e st c (Selector (Some ins) rest) = Inr (Selector (Some []) rest)
        \<and> (q_space q = Some (Selector (Some ins) rest) \<and> honoursInclusion e \<longrightarrow>
             findAll e st c cls q opts =
               (case provideFindAll e cls (q\<lparr>q_space := Some (Selector (Some []) rest)\<rparr>) opts of
                  Inl err \<Rightarrow> Inl err
                | Inr res \<Rightarrow> Inr [])))
   \<and> (s \<notin> set (getAllAllowedSpaces e st c) \<longrightarrow>
        mergeQuery e st c (Literal s) = Inl Forbidden
        \<and> (q_space q' = Some (Literal s) \<longrightarrow> findAll e st c cls q' opts = Inl Forbidden))"
proof (intro conjI impI)
  show "mergeQuery e st c (Selector (Some ins) rest) =
     Inr (Selector (Some (filter (\<lambda>p. p \<in> set (getAllAllowedSpaces e st c)) ins)) rest)"
    by (simp add: mergeQuery_def)
next
  assume "\<forall>p\<in>set ins. p \<notin> set (getAllAllowedSpaces e st c)"
  then show "mergeQuery e st c (Selector (Some ins) rest) = Inr (Selector (Some []) rest)"
    by (simp add: mergeQuery_def filter_none)
next
  assume none: "\<forall>p\<in>set ins. p \<notin> set (getAllAllowedSpaces e st c)"
    and h: "q_space q = Some (Selector (Some ins) rest) \<and> honoursInclusion e"
  let ?q = "q\<lparr>q_space := Some (Selector (Some []) rest)\<rparr>"
  from none h have rw: "rewriteQuery e st c q = Inr ?q"
    by (simp add: rewriteQuery_inclusion filter_none)
  show "findAll e st c cls q opts =
               (case provideFindAll e cls ?q opts of Inl err \<Rightarrow> Inl err | Inr res \<Rightarrow> Inr [])"
  proof (cases "provideFindAll e cls ?q opts")
    case (Inl err)
    with rw show ?thesis by (simp add: findAll_def)
  next
    case (Inr res)
    have "res = []"
    proof (cases res)
      case Nil
      then show ?thesis .
    next
      case (Cons d ds)
      have qs: "q_space ?q = Some (Selector (Some []) rest)" by simp
      from h have "honoursInclusion e" by simp
      then have "d \<in> set res \<longrightarrow> doc_space d \<in> set []"
        unfolding honoursInclusion_def using Inr qs by blast
      with Cons show ?thesis by simp
    qed
    with rw Inr show ?thesis by (simp add: findAll_def)
  qed
next
  assume "s \<notin> set (getAllAllowedSpaces e st c)"
  then show "mergeQuery e st c (Literal s) = Inl Forbidden"
    by (simp add: mergeQuery_def)
next
  assume "s \<notin> set (getAllAllowedSpaces e st c)" and "q_space q' = Some (Literal s)"
  then show "findAll e st c cls q' opts = Inl Forbidden"
    by (simp add: findAll_def rewriteQuery_literal_denied)
qed

text \<open>
  C10, witness: account \<open>B\<close> queries the private space \<open>S1\<close> as the inclusion set
  \<open>[S1]\<close> and gets the empty result, and as a literal and gets \<open>Forbidden\<close>.
\<close>

theorem mergeQuery_inclusion_witness:
  "honoursInclusion env0
   \<and> mergeQuery env0 indexS1 ''B'' (Selector (Some [''S1'']) []) = Inr (Selector (Some []) [])
   \<and> findAll env0 indexS1 ''B'' ''tracker:class:Issue'' (queryOf (Some (Selector (Some [''S1'']) []))) None
       = Inr []
   \<and> ''S1'' \<notin> set (getAllAllowedSpaces env0 indexS1 ''B'')
   \<and> mergeQuery env0 indexS1 ''B'' (Literal ''S1'') = Inl Forbidden
   \<and> findAll env0 indexS1 ''B'' ''tracker:class:Issue'' (queryOf (Some (Literal ''S1''))) None
       = Inl Forbidden"
proof -
  have n: "''S1'' \<notin> set (getAllAllowedSpaces env0 indexS1 ''B'')"
    by (simp add: permitted_B systemSpaces_def)
  then have a: "\<forall>p\<in>set [''S1'']. p \<notin> set (getAllAllowedSpaces env0 indexS1 ''B'')"
    by simp
  note t = mergeQuery_inclusion_never_forbidden [of env0 indexS1 "''B''" "[''S1'']" "[]"
      "queryOf (Some (Selector (Some [''S1'']) []))" "''tracker:class:Issue''" None "''S1''"
      "queryOf (Some (Literal ''S1''))"]
  from t a have "mergeQuery env0 indexS1 ''B'' (Selector (Some [''S1'']) []) = Inr (Selector (Some []) [])"
    by blast
  moreover from t a honoursInclusion_env0
  have "findAll env0 indexS1 ''B'' ''tracker:class:Issue'' (queryOf (Some (Selector (Some [''S1'']) []))) None
       = Inr []"
    by (simp add: queryOf_def env0_simps)
  moreover from t n have "mergeQuery env0 indexS1 ''B'' (Literal ''S1'') = Inl Forbidden"
    by blast
  moreover from t n
  have "findAll env0 indexS1 ''B'' ''tracker:class:Issue'' (queryOf (Some (Literal ''S1''))) None
       = Inl Forbidden"
    by (simp add: queryOf_def)
  ultimately show ?thesis using n honoursInclusion_env0 by blast
qed

subsection \<open>Lookup filtering\<close>

lemma isUnavailable_resolved:
  "getUser e c = Inr a \<Longrightarrow> isUnavailable e st c space = Inr (unavailableTo st a space)"
  by (simp add: isUnavailable_def unavailableTo_def isMember_def)

lemma isUnavailable_untracked:
  "getPrivate st space = None \<Longrightarrow> isUnavailable e st c space = Inr False"
  by (simp add: isUnavailable_def)

lemma isUnavailable_unresolved:
  "getUser e c = Inl err \<Longrightarrow> getPrivate st space \<noteq> None \<Longrightarrow> isUnavailable e st c space = Inl err"
  by (auto simp: isUnavailable_def)

lemma filterArr_resolved:
  "getUser e c = Inr a \<Longrightarrow>
   filterArr e st c vs = Inr (filter (\<lambda>v. \<not> unavailableTo st a (sub_space v)) vs)"
  by (induction vs) (simp_all add: isUnavailable_resolved)

lemma filterVal_resolved:
  "getUser e c = Inr a \<Longrightarrow> filterVal e st c val = Inr (filteredVal st a val)"
  by (simp add: filterVal_def filteredVal_def filterArr_resolved isUnavailable_resolved
      split: lookup_val.splits option.splits)

lemma filterLookup_resolved:
  "getUser e c = Inr a \<Longrightarrow>
   filterLookup e st c lookup = Inr (map (\<lambda>(key, val). (key, filteredVal st a val)) lookup)"
  by (induction lookup) (auto simp: filterVal_resolved)

lemma filterArr_untracked:
  "untracked st (map sub_space vs) \<Longrightarrow> filterArr e st c vs = Inr vs"
  by (induction vs) (simp_all add: untracked_def isUnavailable_untracked)

lemma filterVal_untracked:
  "untracked st (valSpaces val) \<Longrightarrow> filterVal e st c val = Inr val"
  by (auto simp: filterVal_def valSpaces_def filterArr_untracked isUnavailable_untracked untracked_def
      split: lookup_val.splits option.splits)

lemma untracked_append [simp]:
  "untracked st (xs @ ys) \<longleftrightarrow> untracked st xs \<and> untracked st ys"
  by (simp add: untracked_def)

lemma filterLookup_untracked:
  "untracked st (lookupSpaces lookup) \<Longrightarrow> filterLookup e st c lookup = Inr lookup"
  by (induction lookup) (auto simp: lookupSpaces_def filterVal_untracked)

text \<open>
  C7, as amended. For every lookup and every caller whose account resolves,
  \<open>filterLookup\<close> raises no error and returns the lookup with exactly the unavailable
  joined objects removed from array entries and nulled in single entries, where
  \<open>isUnavailable\<close> is the rule of the specification: a tracked private space that the
  non-system caller is not a member of. Whatever the caller, a lookup none of whose
  joined objects lies in a tracked private space is returned unchanged, without error.
  (The rule is \<open>isUnavailable\<close>'s own; the query path decides by the permitted spaces.)
\<close>

theorem filterLookup_removes_unavailable:
  "(getUser e c = Inr a \<longrightarrow>
      filterLookup e st c lookup = Inr (map (\<lambda>(key, val). (key, filteredVal st a val)) lookup)
      \<and> isUnavailable e st c space = Inr (unavailableTo st a space))
   \<and> (untracked st (lookupSpaces lookup) \<longrightarrow> filterLookup e st c lookup = Inr lookup)"
  by (simp add: filterLookup_resolved isUnavailable_resolved filterLookup_untracked)

text \<open>
  C7, witness: for the non-member \<open>B\<close> the joined objects of \<open>S1\<close> are dropped and the
  one of \<open>P1\<close> is kept, for the member \<open>A\<close> nothing is dropped, and on the empty index
  the lookup comes back unchanged for the unresolved caller.
\<close>

theorem filterLookup_removes_unavailable_witness:
  "getUser env0 ''B'' = Inr ''B''
   \<and> filterLookup env0 indexS1 ''B'' lookupEx
       = Inr [(''parent'', LOne None), (''comments'', LArr [\<lparr>sub_id = ''d4'', sub_space = ''P1''\<rparr>])]
   \<and> isUnavailable env0 indexS1 ''B'' ''S1'' = Inr True
   \<and> filterLookup env0 indexS1 ''A'' lookupEx = Inr lookupEx
   \<and> untracked emptyIndex (lookupSpaces lookupEx)
   \<and> filterLookup env0 emptyIndex [] lookupEx = Inr lookupEx"
proof -
  have uB: "getUser env0 ''B'' = Inr ''B''" and uA: "getUser env0 ''A'' = Inr ''A''"
    by (simp_all add: env0_simps)
  have un: "untracked emptyIndex (lookupSpaces lookupEx)"
    by (simp add: untracked_def lookupSpaces_def lookupEx_def valSpaces_def getPrivate_def emptyIndex_def)
  have avB: "unavailableTo indexS1 ''B'' ''S1''" "\<not> unavailableTo indexS1 ''B'' ''P1''"
    by (simp_all add: unavailableTo_def indexS1_def getPrivate_def isMember_def core_account_System_def)
  have avA: "\<not> unavailableTo indexS1 ''A'' ''S1''" "\<not> unavailableTo indexS1 ''A'' ''P1''"
    by (simp_all add: unavailableTo_def indexS1_def getPrivate_def isMember_def)
  from filterLookup_removes_unavailable [of env0 "''B''" "''B''" indexS1 lookupEx "''S1''"] uB avB
  have "filterLookup env0 indexS1 ''B'' lookupEx
       = Inr [(''parent'', LOne None), (''comments'', LArr [\<lparr>sub_id = ''d4'', sub_space = ''P1''\<rparr>])]"
    and "isUnavailable env0 indexS1 ''B'' ''S1'' = Inr True"
    by (simp_all add: lookupEx_def filteredVal_def)
  moreover from filterLookup_removes_unavailable [of env0 "''A''" "''A''" indexS1 lookupEx "''S1''"] uA avA
  have "filterLookup env0 indexS1 ''A'' lookupEx = Inr lookupEx"
    by (simp add: lookupEx_def filteredVal_def)
  moreover from filterLookup_removes_unavailable [of env0 "[]" _ emptyIndex lookupEx] un
  have "filterLookup env0 emptyIndex [] lookupEx = Inr lookupEx"
    by simp
  ultimately show ?thesis using uB un by simp
qed

text \<open>
  C7, counterexample to the claim as stated. For a caller whose account does not resolve,
  \<open>filterLookup\<close> on a lookup that joins an object of the private space \<open>S1\<close> raises the
  resolution error. And the lookup rule is not the query path's: for account \<open>B\<close> the
  pseudo-space \<open>A\<close> of another account is no tracked private space, so a joined object
  of it is available, while a query of \<open>B\<close> for the literal space \<open>A\<close> is rejected.
\<close>

theorem filterLookup_raises_counterexample:
  "getUser env0 [] = Inl (Failure ''no account'')
   \<and> filterLookup env0 indexS1 [] [(''parent'', LOne (Some \<lparr>sub_id = ''d2'', sub_space = ''S1''\<rparr>))]
       = Inl (Failure ''no account'')
   \<and> getUser env0 ''B'' = Inr ''B''
   \<and> isUnavailable env0 indexS1 ''B'' ''A'' = Inr False
   \<and> filterLookup env0 indexS1 ''B'' [(''parent'', LOne (Some \<lparr>sub_id = ''d5'', sub_space = ''A''\<rparr>))]
       = Inr [(''parent'', LOne (Some \<lparr>sub_id = ''d5'', sub_space = ''A''\<rparr>))]
   \<and> mergeQuery env0 indexS1 ''B'' (Literal ''A'') = Inl Forbidden"
  by (simp add: env0_simps filterVal_def isUnavailable_def indexS1_def getPrivate_def
      mergeQuery_def getAllAllowedSpaces_def systemSpaces_def)

subsection \<open>Failed account resolution\<close>

lemma filterResult_untracked:
  "noPrivateLookups st res \<Longrightarrow> filterResult e st c res = Inr res"
  by (induction res) (auto simp: noPrivateLookups_def filterLookup_untracked split: option.splits)

lemma rewriteQuery_unresolved:
  assumes "getUser e c = Inl err"
    and "\<And>s. q_space q = Some (Literal s) \<Longrightarrow> s \<in> set (publicSpaces st @ systemSpaces)"
  shows "\<exists>q'. rewriteQuery e st c q = Inr q'"
proof (cases "q_space q")
  case None
  then show ?thesis by (simp add: rewriteQuery_def)
next
  case (Some sq)
  show ?thesis
  proof (cases sq)
    case (Literal s)
    with Some assms show ?thesis
      by (simp add: rewriteQuery_def mergeQuery_def getAllAllowedSpaces_unresolved)
  next
    case (Selector ins rest)
    with Some show ?thesis
      by (cases ins) (simp_all add: rewriteQuery_def mergeQuery_def)
  qed
qed

lemma tx_unresolved:
  "isDerived e (tx_class t) core_class_TxCUD \<Longrightarrow>
   getPrivate (maintained e t st) (objectSpace t) \<noteq> None \<Longrightarrow>
   getUser e c = Inl err \<Longrightarrow> tx e c t st = (Inl err, maintained e t st)"
  by (auto simp: tx_def Let_def)

text \<open>
  C8, as amended. When account resolution fails: on the read path the permitted spaces
  are exactly the public spaces followed by the system spaces, and computing them raises
  nothing; unless the query names a literal space outside them, the query is rewritten
  and handed on, \<open>findAll\<close> returns what the next stage returns when no lookup is
  requested, and returns the next stage's documents when none of them joins an object of
  a tracked private space. On the write path, for a transaction derived from \<open>TxCUD\<close>
  whose \<open>objectSpace\<close> is tracked as private when the check runs, \<open>tx\<close> raises the
  resolution error and does not forward the transaction.
\<close>

theorem resolution_failure:
  "getUser e c = Inl err \<longrightarrow>
     getAllAllowedSpaces e st c = publicSpaces st @ systemSpaces
     \<and> ((\<forall>s. q_space q = Some (Literal s) \<longrightarrow> s \<in> set (publicSpaces st @ systemSpaces)) \<longrightarrow>
          (\<exists>q'. rewriteQuery e st c q = Inr q'
             \<and> (\<not> lookupRequested opts \<longrightarrow> findAll e st c cls q opts = provideFindAll e cls q' opts)
             \<and> (\<forall>res. provideFindAll e cls q' opts = Inr res \<and> noPrivateLookups st res \<longrightarrow>
                  findAll e st c cls q opts = Inr res)))
     \<and> (isDerived e (tx_class t) core_class_TxCUD
          \<and> getPrivate (maintained e t st) (objectSpace t) \<noteq> None \<longrightarrow>
        tx e c t st = (Inl err, maintained e t st))"
proof (intro impI conjI)
  assume u: "getUser e c = Inl err"
  then show "getAllAllowedSpaces e st c = publicSpaces st @ systemSpaces"
    by (rule getAllAllowedSpaces_unresolved)
next
  assume u: "getUser e c = Inl err"
    and lit: "\<forall>s. q_space q = Some (Literal s) \<longrightarrow> s \<in> set (publicSpaces st @ systemSpaces)"
  then obtain q' where rw: "rewriteQuery e st c q = Inr q'"
    using rewriteQuery_unresolved [of e c err q st] by blast
  have "\<not> lookupRequested opts \<longrightarrow> findAll e st c cls q opts = provideFindAll e cls q' opts"
    using rw by (simp add: findAll_def split: sum.splits)
  moreover have "\<forall>res. provideFindAll e cls q' opts = Inr res \<and> noPrivateLookups st res \<longrightarrow>
                  findAll e st c cls q opts = Inr res"
    using rw by (simp add: findAll_def filterResult_untracked)
  ultimately show "\<exists>q'. rewriteQuery e st c q = Inr q'
             \<and> (\<not> lookupRequested opts \<longrightarrow> findAll e st c cls q opts = provideFindAll e cls q' opts)
             \<and> (\<forall>res. provideFindAll e cls q' opts = Inr res \<and> noPrivateLookups st res \<longrightarrow>
                  findAll e st c cls q opts = Inr res)"
    using rw by blast
next
  assume "getUser e c = Inl err"
    and "isDerived e (tx_class t) core_class_TxCUD
          \<and> getPrivate (maintained e t st) (objectSpace t) \<noteq> None"
  then show "tx e c t st = (Inl err, maintained e t st)"
    by (simp add: tx_unresolved)
qed

lemma provide_unconstrained:
  "provideFindAll env0 cls (queryOf (Some (Selector (Some (''P1'' # systemSpaces)) []))) opts
     = Inr [docJoined]"
  by (simp add: env0_simps queryOf_def docJoined_def)

text \<open>
  C8, witness: the caller with the empty context does not resolve. Its unconstrained
  query and its query for the literal public space \<open>P1\<close> return the document of
  \<open>P1\<close>, the former also with a lookup requested on the index where \<open>S1\<close> is not
  tracked; its creation of an issue in the private space \<open>S1\<close> raises the resolution
  error.
\<close>

theorem resolution_failure_witness:
  "getUser env0 [] = Inl (Failure ''no account'')
   \<and> getAllAllowedSpaces env0 indexS1 [] = [''P1''] @ systemSpaces
   \<and> \<not> lookupRequested None
   \<and> findAll env0 indexS1 [] ''tracker:class:Issue'' (queryOf None) None = Inr [docJoined]
   \<and> findAll env0 indexS1 [] ''tracker:class:Issue'' (queryOf (Some (Literal ''P1''))) None
       = Inr [docJoined]
   \<and> noPrivateLookups indexPublic [docJoined]
   \<and> findAll env0 indexPublic [] ''tracker:class:Issue'' (queryOf None) withLookup = Inr [docJoined]
   \<and> isDerived env0 (tx_class (docTx core_class_TxCreateDoc ''i1'' ''S1'')) core_class_TxCUD
   \<and> getPrivate (maintained env0 (docTx core_class_TxCreateDoc ''i1'' ''S1'') indexS1) ''S1'' \<noteq> None
   \<and> tx env0 [] (docTx core_class_TxCreateDoc ''i1'' ''S1'') indexS1
       = (Inl (Failure ''no account''), indexS1)"
proof -
  have u: "getUser env0 [] = Inl (Failure ''no account'')"
    by (simp add: env0_simps)
  have lit: "\<forall>s. q_space (queryOf None) = Some (Literal s) \<longrightarrow> s \<in> set (publicSpaces st @ systemSpaces)" for st
    by (simp add: queryOf_def)
  have rw: "rewriteQuery env0 st [] (queryOf None)
      = Inr (queryOf (Some (Selector (Some (publicSpaces st @ systemSpaces)) [])))" for st
    by (simp add: rewriteQuery_def queryOf_def getAllAllowedSpaces_unresolved [OF u])
  have pub: "publicSpaces indexS1 = [''P1'']" "publicSpaces indexPublic = [''P1'']"
    by (simp_all add: indexS1_def indexPublic_def)
  have nl: "\<not> lookupRequested None"
    by (simp add: lookupRequested_def)
  have np: "noPrivateLookups indexPublic [docJoined]"
    by (simp add: noPrivateLookups_def docJoined_def untracked_def lookupSpaces_def valSpaces_def
        indexPublic_def getPrivate_def)
  have d: "isDerived env0 (tx_class (docTx core_class_TxCreateDoc ''i1'' ''S1'')) core_class_TxCUD"
    by (simp add: env0_simps docTx_def)
  have m: "maintained env0 (docTx core_class_TxCreateDoc ''i1'' ''S1'') indexS1 = indexS1"
    by (simp add: maintained_def env0_simps docTx_def core_class_Space_def core_class_TxCUD_def)
  have p: "getPrivate indexS1 ''S1'' \<noteq> None"
    by (simp add: getPrivate_def indexS1_def)
  note t1 = resolution_failure [of env0 "[]" "Failure ''no account''" indexS1 "queryOf None" None
      "''tracker:class:Issue''" "docTx core_class_TxCreateDoc ''i1'' ''S1''"]
  note t2 = resolution_failure [of env0 "[]" "Failure ''no account''" indexPublic "queryOf None" withLookup
      "''tracker:class:Issue''" "docTx core_class_TxCreateDoc ''i1'' ''S1''"]
  have litP: "\<forall>s. q_space (queryOf (Some (Literal ''P1''))) = Some (Literal s) \<longrightarrow>
                 s \<in> set (publicSpaces indexS1 @ systemSpaces)"
    by (simp add: queryOf_def indexS1_def)
  have rwP: "rewriteQuery env0 indexS1 [] (queryOf (Some (Literal ''P1'')))
      = Inr (queryOf (Some (Literal ''P1'')))"
    by (simp add: rewriteQuery_def mergeQuery_def queryOf_def getAllAllowedSpaces_unresolved [OF u]
        indexS1_def)
  have prP: "provideFindAll env0 cls (queryOf (Some (Literal ''P1''))) opts = Inr [docJoined]"
    for cls opts
    by (simp add: env0_simps queryOf_def docJoined_def)
  note t3 = resolution_failure [of env0 "[]" "Failure ''no account''" indexS1
      "queryOf (Some (Literal ''P1''))" None "''tracker:class:Issue''"
      "docTx core_class_TxCreateDoc ''i1'' ''S1''"]
  from t3 u litP obtain q3
    where q3: "rewriteQuery env0 indexS1 [] (queryOf (Some (Literal ''P1''))) = Inr q3"
      and f3: "\<not> lookupRequested None \<longrightarrow>
           findAll env0 indexS1 [] ''tracker:class:Issue'' (queryOf (Some (Literal ''P1''))) None
             = provideFindAll env0 ''tracker:class:Issue'' q3 None"
    by blast
  from q3 have e3: "q3 = queryOf (Some (Literal ''P1''))"
    by (simp add: rwP)
  from t1 u have c1: "getAllAllowedSpaces env0 indexS1 [] = publicSpaces indexS1 @ systemSpaces"
    by blast
  from t1 u lit [of indexS1] obtain q1
    where q1: "rewriteQuery env0 indexS1 [] (queryOf None) = Inr q1"
      and f1: "\<not> lookupRequested None \<longrightarrow>
           findAll env0 indexS1 [] ''tracker:class:Issue'' (queryOf None) None
             = provideFindAll env0 ''tracker:class:Issue'' q1 None"
    by blast
  from q1 have e1: "q1 = queryOf (Some (Selector (Some (''P1'' # systemSpaces)) []))"
    by (simp add: rw pub)
  from t2 u lit [of indexPublic] obtain q2
    where q2: "rewriteQuery env0 indexPublic [] (queryOf None) = Inr q2"
      and f2: "\<forall>res. provideFindAll env0 ''tracker:class:Issue'' q2 withLookup = Inr res
                  \<and> noPrivateLookups indexPublic res \<longrightarrow>
           findAll env0 indexPublic [] ''tracker:class:Issue'' (queryOf None) withLookup = Inr res"
    by blast
  from q2 have e2: "q2 = queryOf (Some (Selector (Some (''P1'' # systemSpaces)) []))"
    by (simp add: rw pub)
  from t1 u d m p
  have w: "tx env0 [] (docTx core_class_TxCreateDoc ''i1'' ''S1'') indexS1
       = (Inl (Failure ''no account''), indexS1)"
    by (simp add: docTx_def)
  from c1 have "getAllAllowedSpaces env0 indexS1 [] = [''P1''] @ systemSpaces"
    by (simp add: pub)
  moreover from f1 nl
  have "findAll env0 indexS1 [] ''tracker:class:Issue'' (queryOf None) None = Inr [docJoined]"
    by (simp add: e1 provide_unconstrained)
  moreover from f3 nl
  have "findAll env0 indexS1 [] ''tracker:class:Issue'' (queryOf (Some (Literal ''P1''))) None
       = Inr [docJoined]"
    by (simp add: e3 prP)
  moreover from f2 np
  have "findAll env0 indexPublic [] ''tracker:class:Issue'' (queryOf None) withLookup = Inr [docJoined]"
    by (simp add: e2 provide_unconstrained)
  moreover note w
  ultimately show ?thesis using u nl np d m p by simp
qed

text \<open>
  C8, counterexample to the claim as stated: for the caller that does not resolve,
  \<open>findAll\<close> with a lookup requested raises the resolution error when the document found
  joins an object of the private space \<open>S1\<close>, and \<open>findAll\<close> for the literal space \<open>S1\<close>
  raises \<open>Forbidden\<close>.
\<close>

theorem findAll_unresolved_counterexample:
  "getUser env0 [] = Inl (Failure ''no account'')
   \<and> findAll env0 indexS1 [] ''tracker:class:Issue'' (queryOf None) withLookup
       = Inl (Failure ''no account'')
   \<and> findAll env0 indexS1 [] ''tracker:class:Issue'' (queryOf (Some (Literal ''S1''))) None
       = Inl Forbidden"
proof -
  have u: "getUser env0 [] = Inl (Failure ''no account'')"
    by (simp add: env0_simps)
  have rw: "rewriteQuery env0 indexS1 [] (queryOf None)
      = Inr (queryOf (Some (Selector (Some ([''P1''] @ systemSpaces)) [])))"
    by (simp add: rewriteQuery_def queryOf_def getAllAllowedSpaces_unresolved [OF u] indexS1_def)
  have f: "filterResult env0 indexS1 [] [docJoined] = Inl (Failure ''no account'')"
    by (simp add: docJoined_def filterVal_def isUnavailable_def u indexS1_def getPrivate_def)
  have "findAll env0 indexS1 [] ''tracker:class:Issue'' (queryOf None) withLookup
       = Inl (Failure ''no account'')"
    by (simp add: findAll_def rw provide_unconstrained lookupRequested_def withLookup_def f
        del: filterResult.simps)
  moreover have "findAll env0 indexS1 [] ''tracker:class:Issue'' (queryOf (Some (Literal ''S1''))) None
       = Inl Forbidden"
    by (simp add: findAll_def rewriteQuery_def mergeQuery_def queryOf_def
        getAllAllowedSpaces_unresolved [OF u] indexS1_def systemSpaces_def)
  ultimately show ?thesis using u by simp
qed

subsection \<open>The system account on the write path and in lookups\<close>

lemma filterArr_system:
  "getUser e c = Inr core_account_System \<Longrightarrow> filterArr e st c vs = Inr vs"
  by (induction vs) (simp_all add: isUnavailable_system)

lemma filterVal_system:
  "getUser e c = Inr core_account_System \<Longrightarrow> filterVal e st c val = Inr val"
  by (simp add: filterVal_def filterArr_system isUnavailable_system
      split: lookup_val.splits option.splits)

lemma filterLookup_system:
  "getUser e c = Inr core_account_System \<Longrightarrow> filterLookup e st c lookup = Inr lookup"
  by (induction lookup) (auto simp: filterVal_system)

text \<open>
  A transaction of a caller that resolves to the system account is never rejected by
  \<open>tx\<close>: it is forwarded, whether or not its space is private and whether or not the
  system account is a member.
\<close>

lemma system_write_forwarded:
  "getUser e c = Inr core_account_System \<longrightarrow>
     (\<exists>targets. fst (tx e c t st) = Inr (Forwarded targets))"
  by (simp add: tx_system_not_rejected)

text \<open>
  At a concrete input: the system account, no member of the private space \<open>S1\<close>, creates an issue
  in \<open>S1\<close>.
\<close>

lemma system_write_forwarded_example:
  "getUser env0 core_account_System = Inr core_account_System
   \<and> getPrivate indexS1 ''S1'' \<noteq> None
   \<and> \<not> isMember indexS1 core_account_System ''S1''
   \<and> (\<exists>targets. fst (tx env0 core_account_System (docTx core_class_TxCreateDoc ''i1'' ''S1'') indexS1)
         = Inr (Forwarded targets))"
proof -
  have u: "getUser env0 core_account_System = Inr core_account_System"
    by (simp add: env0_simps core_account_System_def)
  have "getPrivate indexS1 ''S1'' \<noteq> None" "\<not> isMember indexS1 core_account_System ''S1''"
    by (simp_all add: indexS1_def getPrivate_def isMember_def core_account_System_def)
  with u system_write_forwarded [of env0 core_account_System
      "docTx core_class_TxCreateDoc ''i1'' ''S1''" indexS1]
  show ?thesis by blast
qed

text \<open>
  For a caller that resolves to the system account no space is unavailable, and
  \<open>filterLookup\<close> returns every lookup unchanged.
\<close>

lemma system_lookup_unfiltered:
  "getUser e c = Inr core_account_System \<longrightarrow>
     filterLookup e st c lookup = Inr lookup \<and> isUnavailable e st c space = Inr False"
  by (simp add: filterLookup_system isUnavailable_system)

text \<open>
  At a concrete input: the lookup that joins objects of the private space \<open>S1\<close> comes back whole
  for the system account.
\<close>

lemma system_lookup_unfiltered_example:
  "getUser env0 core_account_System = Inr core_account_System
   \<and> filterLookup env0 indexS1 core_account_System lookupEx = Inr lookupEx
   \<and> isUnavailable env0 indexS1 core_account_System ''S1'' = Inr False"
proof -
  have u: "getUser env0 core_account_System = Inr core_account_System"
    by (simp add: env0_simps core_account_System_def)
  with system_lookup_unfiltered [of env0 core_account_System indexS1 lookupEx "''S1''"]
  show ?thesis by blast
qed

end
